theory Spec2Isabelle
  imports Complex_Main
begin

section \<open>Python values used by weather\_gui.py\<close>

text \<open>
  Exceptions of the Python runtime and library that the modelled code can meet:
  \<open>int()\<close> on a malformed string and \<open>random.randint\<close> on an empty range raise
  ValueError, \<open>random.choice\<close> on an empty sequence raises IndexError, \<open>%\<close> by zero
  raises ZeroDivisionError, the conversion of an integer beyond the range of a
  float raises OverflowError, the lookup of a method that a class does not define
  raises AttributeError, \<open>Queue.get_nowait\<close> on an empty queue raises Empty, and
  \<open>Thread.join\<close> on a thread that was never started raises RuntimeError.
\<close>

datatype py_error =
  ValueError | IndexError | ZeroDivisionError | OverflowError | AttributeError | Empty |
  RuntimeError

text \<open>How a call ended: it returned, or an exception left it.\<close>

datatype outcome = Returned | Raised py_error

subsection \<open>\<open>str(int)\<close> and \<open>int(str)\<close>\<close>

definition digit_char :: "nat \<Rightarrow> char" where
  "digit_char d = ''0123456789'' ! (d mod 10)"

fun str_nat :: "nat \<Rightarrow> string" where
  "str_nat n = (if n < 10 then [digit_char n] else str_nat (n div 10) @ [digit_char (n mod 10)])"

declare str_nat.simps [simp del]

text \<open>\<open>str(i)\<close>, which is what an f-string field \<open>{i}\<close> renders for an integer.\<close>

definition str_int :: "int \<Rightarrow> string" where
  "str_int i = (if i < 0 then CHR ''-'' # str_nat (nat (- i)) else str_nat (nat i))"

text \<open>
  \<open>int(s)\<close> in base 10 on a string of code points below U+0100: surrounding white
  space is stripped, one sign is allowed, then decimal digits, where single
  underscores may stand between digits. Everything else raises ValueError.
\<close>

definition is_space :: "char \<Rightarrow> bool" where
  "is_space c =
     (c \<in> set [CHR '' '', CHR 0x09, CHR 0x0A, CHR 0x0B, CHR 0x0C, CHR 0x0D, CHR 0x85, CHR 0xA0])"

definition strip :: "string \<Rightarrow> string" where
  "strip s = rev (dropWhile is_space (rev (dropWhile is_space s)))"

definition is_digit :: "char \<Rightarrow> bool" where
  "is_digit c = (48 \<le> (of_char c :: nat) \<and> (of_char c :: nat) \<le> 57)"

definition digit_val :: "char \<Rightarrow> nat" where
  "digit_val c = (of_char c :: nat) - 48"

fun parse_digits :: "nat \<Rightarrow> string \<Rightarrow> nat option" where
  "parse_digits acc [] = Some acc"
| "parse_digits acc (c # cs) =
     (if c = CHR ''_'' then
        (case cs of [] \<Rightarrow> None
         | d # _ \<Rightarrow> if is_digit d then parse_digits acc cs else None)
      else if is_digit c then parse_digits (acc * 10 + digit_val c) cs
      else None)"

definition parse_unsigned :: "string \<Rightarrow> nat option" where
  "parse_unsigned s =
     (case s of [] \<Rightarrow> None
      | c # _ \<Rightarrow> if is_digit c then parse_digits 0 s else None)"

definition py_int :: "string \<Rightarrow> py_error + int" where
  "py_int s =
     (let t = strip s;
          neg = (t \<noteq> [] \<and> hd t = CHR ''-'');
          body = (if t \<noteq> [] \<and> (hd t = CHR ''-'' \<or> hd t = CHR ''+'') then tl t else t)
      in case parse_unsigned body of
           None \<Rightarrow> Inl ValueError
         | Some n \<Rightarrow> Inr (if neg then - int n else int n))"

subsection \<open>Integers as floats\<close>

text \<open>
  \<open>i % num_threads * 0.5\<close> multiplies an integer by a float, which first converts the
  integer to the nearest double, ties to the even mantissa, and raises
  OverflowError when that is beyond the largest double. An integer below \<open>2^53\<close>
  in size converts to itself; every double of that size or more is an integer
  as well, so the converted value is given as an integer.
\<close>

fun bit_length :: "nat \<Rightarrow> nat" where
  "bit_length n = (if n = 0 then 0 else Suc (bit_length (n div 2)))"

declare bit_length.simps [simp del]

definition float_of_int :: "int \<Rightarrow> py_error + int" where
  "float_of_int x =
     (let a = nat \<bar>x\<bar> in
      if a < 2 ^ 53 then Inr x
      else
        let e = bit_length a - 53;
            q = a div 2 ^ e;
            r = a mod 2 ^ e;
            half = 2 ^ (e - 1);
            q' = (if half < r \<or> (r = half \<and> odd q) then q + 1 else q);
            v = q' * 2 ^ e
        in if 2 ^ 1024 \<le> v then Inl OverflowError
           else Inr (if x < 0 then - int v else int v))"

subsection \<open>The \<open>random\<close> module and the clock\<close>

text \<open>
  The pseudo-random generator is an input of the model: every call receives the
  entropy it consumes as a natural number. \<open>random.randint(a, b)\<close> returns an integer
  of the closed range \<open>[a, b]\<close> and raises ValueError when the range is empty;
  \<open>random.choice(seq)\<close> returns an element of \<open>seq\<close> and raises IndexError when
  \<open>seq\<close> is empty.
\<close>

definition randint :: "int \<Rightarrow> int \<Rightarrow> nat \<Rightarrow> py_error + int" where
  "randint a b e = (if b < a then Inl ValueError else Inr (a + int (e mod nat (b - a + 1))))"

definition choice :: "'a list \<Rightarrow> nat \<Rightarrow> py_error + 'a" where
  "choice seq e = (if seq = [] then Inl IndexError else Inr (seq ! (e mod length seq)))"

text \<open>The entropy of one call of \<open>generate_mock_data\<close>, in the order of its four draws.\<close>

record draws =
  e_temperature :: nat
  e_humidity :: nat
  e_condition :: nat
  e_wind_speed :: nat

text \<open>
  \<open>datetime.now()\<close> is an input as well: the wall clock, in seconds since midnight.
  \<open>strftime("%H:%M:%S")\<close> prints hour, minute and second with two digits each.
\<close>

definition two_digits :: "nat \<Rightarrow> string" where
  "two_digits n = [digit_char (n div 10), digit_char n]"

definition strftime_HMS :: "nat \<Rightarrow> string" where
  "strftime_HMS now =
     two_digits (now div 3600 mod 24) @ '':'' @ two_digits (now div 60 mod 60) @ '':'' @
     two_digits (now mod 60)"

section \<open>WeatherDataCollector\<close>

definition CITIES :: "string list" where
  "CITIES = [''New York'', ''London'', ''Tokyo'', ''Sydney'', ''Paris'',
             ''Berlin'', ''Mumbai'', ''Beijing'', ''Dubai'', ''Singapore'']"

definition CONDITIONS :: "string list" where
  "CONDITIONS = [''Sunny'', ''Cloudy'', ''Rainy'', ''Stormy'', ''Snowy'', ''Windy'']"

record WeatherDataCollector =
  city :: string
  temperature :: int
  humidity :: int
  condition :: string
  wind_speed :: int
  timestamp :: string

definition WeatherDataCollector_init :: WeatherDataCollector where
  "WeatherDataCollector_init =
     \<lparr>city = '''', temperature = 0, humidity = 0, condition = '''', wind_speed = 0,
      timestamp = ''''\<rparr>"

text \<open>
  \<open>generate_mock_data\<close> overwrites the six fields of \<open>self\<close> and returns \<open>self\<close>.
  The draws happen in the order temperature, humidity, condition, wind speed.
\<close>

definition generate_mock_data ::
  "WeatherDataCollector \<Rightarrow> string \<Rightarrow> draws \<Rightarrow> nat \<Rightarrow> py_error + WeatherDataCollector" where
  "generate_mock_data self c e now =
     (case randint (- 10) 40 (e_temperature e) of Inl x \<Rightarrow> Inl x | Inr t \<Rightarrow>
     (case randint 20 100 (e_humidity e) of Inl x \<Rightarrow> Inl x | Inr h \<Rightarrow>
     (case choice CONDITIONS (e_condition e) of Inl x \<Rightarrow> Inl x | Inr k \<Rightarrow>
     (case randint 0 50 (e_wind_speed e) of Inl x \<Rightarrow> Inl x | Inr w \<Rightarrow>
      Inr (self\<lparr>city := c, temperature := t, humidity := h, condition := k,
                wind_speed := w, timestamp := strftime_HMS now\<rparr>)))))"

text \<open>
  The degree sign of the source text is the code point U+00B0, one character of the
  Python string.
\<close>

definition degree_sign :: char where
  "degree_sign = CHR 0xB0"

text \<open>\<open>to_string\<close>: the three adjacent f-string literals of the source, concatenated.\<close>

definition to_string :: "WeatherDataCollector \<Rightarrow> string" where
  "to_string self =
     (city self @ '': '' @ str_int (temperature self) @ [degree_sign] @ ''C, '') @
     (condition self @ '', Humidity: '' @ str_int (humidity self) @ ''%, '') @
     (''Wind: '' @ str_int (wind_speed self) @ '' km/h ['' @ timestamp self @ '']'')"

section \<open>WeatherGUI\<close>

text \<open>
  The widgets are modelled by the part of their state the program reads or writes:
  a button by its \<open>state\<close> option, the spin box by its text, the text area by its
  content and whether its end is in view, the label by its text and colour.
  \<open>city_vars\<close> is a Python dict, kept in insertion order.
\<close>

datatype btn_state = Normal | Disabled

text \<open>
  A \<open>threading.Thread\<close> with target \<open>collect_weather\<close>: the two arguments, the daemon
  flag, and whether \<open>start()\<close> has been called on it.
\<close>

record Thread =
  arg_city :: string
  arg_delay :: rat
  daemon :: bool
  started :: bool

datatype callback = ProcessQueue

record WeatherGUI =
  collecting :: bool
  threads :: "Thread list"
  data_queue :: "string list"
  city_vars :: "(string \<times> bool) list"
  start_btn :: btn_state
  stop_btn :: btn_state
  thread_count :: string
  data_text :: string
  data_text_end_seen :: bool
  info_label :: "string \<times> string"
  after_calls :: "(nat \<times> callback) list"

subsection \<open>\<open>queue.Queue\<close>\<close>

text \<open>
  An unbounded FIFO queue: \<open>put\<close> adds at the back, \<open>get_nowait\<close> takes from the
  front and raises Empty at once when there is nothing to take.
\<close>

definition put :: "'a \<Rightarrow> 'a list \<Rightarrow> 'a list" where
  "put x q = q @ [x]"

definition get_nowait :: "'a list \<Rightarrow> py_error + ('a \<times> 'a list)" where
  "get_nowait q = (case q of [] \<Rightarrow> Inl Empty | x # r \<Rightarrow> Inr (x, r))"

subsection \<open>\<open>process_queue\<close>\<close>

definition newline :: char where
  "newline = CHR 0x0A"

text \<open>
  The \<open>while True\<close> loop inside \<open>try\<close>: each round takes one item, inserts it with a
  newline at the end of the text area and scrolls there. The loop is left only by
  the exception of \<open>get_nowait\<close>, which the bare \<open>except\<close> swallows.
\<close>

function drain :: "WeatherGUI \<Rightarrow> WeatherGUI" where
  "drain s =
     (case get_nowait (data_queue s) of
        Inl e \<Rightarrow> s
      | Inr (d, q) \<Rightarrow>
          drain (s\<lparr>data_queue := q, data_text := data_text s @ (d @ [newline]),
                   data_text_end_seen := True\<rparr>))"
  by pat_completeness auto
termination
  by (relation "measure (\<lambda>s. length (data_queue s))")
     (auto simp: get_nowait_def split: list.splits)

declare drain.simps [simp del]

definition process_queue :: "WeatherGUI \<Rightarrow> WeatherGUI" where
  "process_queue s =
     (let s1 = drain s
      in s1\<lparr>after_calls := after_calls s1 @ [(100, ProcessQueue)]\<rparr>)"

subsection \<open>\<open>setup_ui\<close> and \<open>__init__\<close>\<close>

text \<open>
  The spin box is a \<open>tkinter.Spinbox\<close>. That class defines no method \<open>set\<close> (the
  themed \<open>ttk.Spinbox\<close> does), so the call \<open>self.thread_count.set(3)\<close> raises
  AttributeError when the attribute is looked up, whatever the box shows.
\<close>

definition Spinbox_set :: "string \<Rightarrow> int \<Rightarrow> py_error + string" where
  "Spinbox_set shown v = Inl AttributeError"

text \<open>
  \<open>setup_ui\<close> in the order of its statements: one checked variable per city, the
  Start button in the default state, the Stop button disabled, the spin box, which
  shows its lower bound 1, and the call of \<open>set\<close>. What follows that call (the text
  area, the label and the first call of \<open>process_queue\<close>) is run only when it
  returns.
\<close>

definition setup_ui :: "WeatherGUI \<Rightarrow> outcome \<times> WeatherGUI" where
  "setup_ui s =
     (let s1 = s\<lparr>city_vars := map (\<lambda>c. (c, True)) CITIES\<rparr>;
          s2 = s1\<lparr>start_btn := Normal\<rparr>;
          s3 = s2\<lparr>stop_btn := Disabled\<rparr>;
          s4 = s3\<lparr>thread_count := ''1''\<rparr>
      in case Spinbox_set (thread_count s4) 3 of
           Inl x \<Rightarrow> (Raised x, s4)
         | Inr shown \<Rightarrow>
             (let s5 = s4\<lparr>thread_count := shown\<rparr>;
                  s6 = s5\<lparr>data_text := '''', data_text_end_seen := False\<rparr>;
                  s7 = s6\<lparr>info_label := (''Ready to collect weather data'', ''blue'')\<rparr>
              in (Returned, process_queue s7)))"

text \<open>
  \<open>__init__\<close> assigns the flag, the list of threads, the queue and the empty dict and
  calls \<open>setup_ui\<close>. The attributes that \<open>setup_ui\<close> assigns do not exist before; the
  record holds for each of them the state of a widget just created without options.
\<close>

definition WeatherGUI_init :: "outcome \<times> WeatherGUI" where
  "WeatherGUI_init =
     setup_ui
       \<lparr>collecting = False, threads = [], data_queue = [], city_vars = [],
        start_btn = Normal, stop_btn = Normal, thread_count = '''',
        data_text = '''', data_text_end_seen = False,
        info_label = ('''', ''''), after_calls = []\<rparr>"

definition get_selected_cities :: "WeatherGUI \<Rightarrow> string list" where
  "get_selected_cities s = map fst (filter snd (city_vars s))"

subsection \<open>\<open>collect_weather\<close>\<close>

text \<open>
  One round of the worker's \<open>while self.collecting\<close> loop, as an atomic step on the
  shared state: when the flag is set, a fresh collector generates a reading and its
  rendered text is put into the queue; when the flag is clear the loop ends and
  nothing changes. An exception would end the thread without touching the state.
\<close>

definition collect_weather_round :: "string \<Rightarrow> draws \<Rightarrow> nat \<Rightarrow> WeatherGUI \<Rightarrow> WeatherGUI" where
  "collect_weather_round c e now s =
     (if collecting s then
        (case generate_mock_data WeatherDataCollector_init c e now of
           Inl x \<Rightarrow> s
         | Inr data \<Rightarrow> s\<lparr>data_queue := put (to_string data) (data_queue s)\<rparr>)
      else s)"

text \<open>Rounds of any workers, in the order in which they happen.\<close>

definition collect_weather_rounds :: "(string \<times> draws \<times> nat) list \<Rightarrow> WeatherGUI \<Rightarrow> WeatherGUI" where
  "collect_weather_rounds rs s = foldl (\<lambda>s (c, e, now). collect_weather_round c e now s) s rs"

subsection \<open>\<open>start_collection\<close>\<close>

definition Thread_new :: "string \<Rightarrow> rat \<Rightarrow> bool \<Rightarrow> Thread" where
  "Thread_new c d dm = \<lparr>arg_city = c, arg_delay = d, daemon = dm, started = False\<rparr>"

definition Thread_start :: "Thread \<Rightarrow> Thread" where
  "Thread_start t = t\<lparr>started := True\<rparr>"

text \<open>
  The \<open>for i, city in enumerate(cities)\<close> loop. \<open>i % num_threads\<close> raises
  ZeroDivisionError when \<open>num_threads\<close> is 0, and the product with 0.5 raises
  OverflowError when the remainder is beyond the range of a float, in both cases
  before anything else of that round is done. Python's \<open>%\<close> takes the sign of the
  divisor, as \<open>mod\<close> on \<open>int\<close> does. Halving a double of size 1 or more is exact. The
  thread object is appended and then started: the list holds the started thread.
\<close>

fun spawn :: "int \<Rightarrow> (nat \<times> string) list \<Rightarrow> WeatherGUI \<Rightarrow> outcome \<times> WeatherGUI" where
  "spawn num_threads [] s = (Returned, s)"
| "spawn num_threads ((i, c) # rest) s =
     (if num_threads = 0 then (Raised ZeroDivisionError, s)
      else
        (case float_of_int (int i mod num_threads) of
           Inl x \<Rightarrow> (Raised x, s)
         | Inr f \<Rightarrow>
             let delay = of_int f * (1 / 2);
                 thread = Thread_new c delay True
             in spawn num_threads rest (s\<lparr>threads := threads s @ [Thread_start thread]\<rparr>)))"

definition collecting_message :: "nat \<Rightarrow> int \<Rightarrow> string" where
  "collecting_message k num_threads =
     ''Collecting data from '' @ str_int (int k) @ '' cities with '' @
     str_int num_threads @ '' threads...''"

definition start_collection :: "WeatherGUI \<Rightarrow> outcome \<times> WeatherGUI" where
  "start_collection s =
     (let cities = get_selected_cities s in
      if cities = [] then
        (Returned, s\<lparr>info_label := (''Please select at least one city!'', ''red'')\<rparr>)
      else
        let s1 = s\<lparr>collecting := True\<rparr>;
            s2 = s1\<lparr>data_text := ''''\<rparr>
        in case py_int (thread_count s2) of
             Inl x \<Rightarrow> (Raised x, s2)
           | Inr num_threads \<Rightarrow>
               (case spawn num_threads (enumerate 0 cities) s2 of
                  (Raised x, s3) \<Rightarrow> (Raised x, s3)
                | (Returned, s3) \<Rightarrow>
                    (Returned,
                     s3\<lparr>start_btn := Disabled, stop_btn := Normal,
                        info_label :=
                          (collecting_message (length cities) num_threads, ''green'')\<rparr>)))"

subsection \<open>\<open>stop_collection\<close>\<close>

text \<open>
  \<open>thread.join(timeout)\<close> blocks until the thread has ended or \<open>timeout\<close> has passed,
  whichever is first, and raises RuntimeError on a thread that was not started.
  When each worker ends is an input: \<open>ends i\<close> is the time after the call of
  \<open>stop_collection\<close> at which the \<open>i\<close>-th thread of the list ends, \<open>None\<close> when it
  never does. The result is the time the call blocked.
\<close>

definition join :: "rat \<Rightarrow> Thread \<Rightarrow> rat option \<Rightarrow> py_error + rat" where
  "join timeout t remaining =
     (if \<not> started t then Inl RuntimeError
      else Inr (case remaining of None \<Rightarrow> timeout | Some r \<Rightarrow> min timeout (max 0 r)))"

text \<open>
  The \<open>for thread in self.threads\<close> loop, with the time passed since the call began;
  it returns the time blocked on each thread.
\<close>

fun join_each :: "(nat \<Rightarrow> rat option) \<Rightarrow> nat \<Rightarrow> rat \<Rightarrow> Thread list \<Rightarrow> py_error + rat list" where
  "join_each ends i clock [] = Inr []"
| "join_each ends i clock (t # ts) =
     (case join 1 t (map_option (\<lambda>e. e - clock) (ends i)) of
        Inl x \<Rightarrow> Inl x
      | Inr w \<Rightarrow>
          (case join_each ends (Suc i) (clock + w) ts of
             Inl x \<Rightarrow> Inl x
           | Inr ws \<Rightarrow> Inr (w # ws)))"

definition stop_collection ::
  "(nat \<Rightarrow> rat option) \<Rightarrow> WeatherGUI \<Rightarrow> outcome \<times> rat list \<times> WeatherGUI" where
  "stop_collection ends s =
     (let s1 = s\<lparr>collecting := False\<rparr> in
      case join_each ends 0 0 (threads s1) of
        Inl x \<Rightarrow> (Raised x, [], s1)
      | Inr ws \<Rightarrow>
          (Returned, ws,
           s1\<lparr>threads := [], start_btn := Normal, stop_btn := Disabled,
              info_label := (''Collection stopped'', ''red'')\<rparr>))"

text \<open>\<open>on_closing\<close>, up to the destruction of the window.\<close>

definition on_closing :: "(nat \<Rightarrow> rat option) \<Rightarrow> WeatherGUI \<Rightarrow> outcome \<times> WeatherGUI" where
  "on_closing ends s =
     (if collecting s then
        (case stop_collection ends s of (r, ws, s') \<Rightarrow> (r, s'))
      else (Returned, s))"

section \<open>The application as a transition system\<close>

text \<open>
  The events of a running application, each atomic on the state: the user checks
  or unchecks a city, types into the spin box or into the text area, presses an
  enabled button or closes the window; the timer fires the pending call of
  \<open>process_queue\<close>; a worker thread does one round of its loop. A callback that
  raises leaves its changes behind and the event loop goes on, so a button press
  is a transition whatever its outcome. The system starts from any state whose
  list of threads is empty, as \<open>__init__\<close> assigns it.
\<close>

inductive reachable :: "WeatherGUI \<Rightarrow> bool" where
  r_idle: "threads s = [] \<Longrightarrow> reachable s"
| r_check:
    "reachable s \<Longrightarrow> i < length (city_vars s) \<Longrightarrow>
     reachable (s\<lparr>city_vars := (city_vars s)[i := (fst (city_vars s ! i), b)]\<rparr>)"
| r_spin: "reachable s \<Longrightarrow> reachable (s\<lparr>thread_count := txt\<rparr>)"
| r_edit: "reachable s \<Longrightarrow> reachable (s\<lparr>data_text := txt\<rparr>)"
| r_start:
    "reachable s \<Longrightarrow> start_btn s = Normal \<Longrightarrow> start_collection s = (r, s') \<Longrightarrow>
     reachable s'"
| r_stop:
    "reachable s \<Longrightarrow> stop_btn s = Normal \<Longrightarrow> stop_collection ends s = (r, ws, s') \<Longrightarrow>
     reachable s'"
| r_close: "reachable s \<Longrightarrow> on_closing ends s = (r, s') \<Longrightarrow> reachable s'"
| r_timer:
    "reachable s \<Longrightarrow> after_calls s = (ms, ProcessQueue) # rest \<Longrightarrow>
     reachable (process_queue (s\<lparr>after_calls := rest\<rparr>))"
| r_worker: "reachable s \<Longrightarrow> reachable (collect_weather_round c e now s)"

section \<open>The specification's wording, for comparison\<close>

text \<open>
  The log line as the specification gives it: a template with the fields in angle
  brackets. \<open>substitute\<close> reads the template once from the left and replaces each
  bracketed name that has a binding by its value; everything else is copied.
\<close>

definition log_line_format :: string where
  "log_line_format =
     ''<city>: <temp>'' @ [degree_sign] @
     ''C, <condition>, Humidity: <humidity>%, Wind: <wind> km/h [<HH:MM:SS>]''"

function substitute :: "(string \<times> string) list \<Rightarrow> string \<Rightarrow> string" where
  "substitute env [] = []"
| "substitute env (c # cs) =
     (if c = CHR ''<'' \<and> CHR ''>'' \<in> set cs then
        (case map_of env (takeWhile (\<lambda>x. x \<noteq> CHR ''>'') cs) of
           Some v \<Rightarrow> v @ substitute env (tl (dropWhile (\<lambda>x. x \<noteq> CHR ''>'') cs))
         | None \<Rightarrow> c # substitute env cs)
      else c # substitute env cs)"
  by pat_completeness auto
termination
proof (relation "measure (\<lambda>(env, t). length t)")
  show "wf (measure (\<lambda>(env, t). length t))" by simp
next
  fix env :: "(string \<times> string) list" and c :: char and cs :: string and v :: string
  have "length (tl (dropWhile (\<lambda>x. x \<noteq> CHR ''>'') cs)) \<le> length cs"
    using length_dropWhile_le [of "\<lambda>x. x \<noteq> CHR ''>''" cs] by simp
  then show "((env, tl (dropWhile (\<lambda>x. x \<noteq> CHR ''>'') cs)), (env, c # cs))
               \<in> measure (\<lambda>(env, t). length t)"
    by simp
next
  fix env :: "(string \<times> string) list" and c :: char and cs :: string
  show "((env, cs), (env, c # cs)) \<in> measure (\<lambda>(env, t). length t)" by simp
next
  fix env :: "(string \<times> string) list" and c :: char and cs :: string
  show "((env, cs), (env, c # cs)) \<in> measure (\<lambda>(env, t). length t)" by simp
qed

declare substitute.simps [simp del]

definition spec_log_line :: "WeatherDataCollector \<Rightarrow> string" where
  "spec_log_line r =
     substitute
       [(''city'', city r), (''temp'', str_int (temperature r)),
        (''condition'', condition r), (''humidity'', str_int (humidity r)),
        (''wind'', str_int (wind_speed r)), (''HH:MM:SS'', timestamp r)]
       log_line_format"

text \<open>
  Reading a time of day written \<open>HH:MM:SS\<close>: two digits for an hour below 24, a
  colon, two digits for a minute below 60, a colon, two digits for a second
  below 60. Anything else is no time of day.
\<close>

definition read_two :: "char \<Rightarrow> char \<Rightarrow> nat option" where
  "read_two a b =
     (if is_digit a \<and> is_digit b then Some (10 * digit_val a + digit_val b) else None)"

definition parse_HMS :: "string \<Rightarrow> (nat \<times> nat \<times> nat) option" where
  "parse_HMS ts =
     (case ts of
        [h1, h2, c1, m1, m2, c2, s1, s2] \<Rightarrow>
          (case (read_two h1 h2, read_two m1 m2, read_two s1 s2) of
             (Some h, Some m, Some s) \<Rightarrow>
               if c1 = CHR '':'' \<and> c2 = CHR '':'' \<and> h < 24 \<and> m < 60 \<and> s < 60
               then Some (h, m, s) else None
           | _ \<Rightarrow> None)
      | _ \<Rightarrow> None)"

text \<open>
  The two buttons mirror the running flag: Start is disabled exactly while
  collecting, Stop exactly while idle.
\<close>

definition buttons_exclusive :: "WeatherGUI \<Rightarrow> bool" where
  "buttons_exclusive s =
     ((start_btn s = Disabled) = collecting s \<and> (stop_btn s = Disabled) = (\<not> collecting s))"

text \<open>The lines that draining a queue adds to the text area.\<close>

definition log_lines :: "string list \<Rightarrow> string" where
  "log_lines q = concat (map (\<lambda>d. d @ [newline]) q)"

text \<open>
  The threads that a start creates for a list of cities when the worker count \<open>n\<close>
  is positive and at most \<open>2^53\<close>, so that every remainder is a float as it is.
\<close>

definition workers_for :: "int \<Rightarrow> string list \<Rightarrow> Thread list" where
  "workers_for n cities =
     map (\<lambda>(i, c). \<lparr>arg_city = c, arg_delay = of_int (int i mod n) * (1 / 2),
                     daemon = True, started = True\<rparr>)
       (enumerate 0 cities)"

section \<open>Properties of the library models\<close>

lemma randint_range:
  "a \<le> b \<Longrightarrow> \<exists>v. randint a b e = Inr v \<and> a \<le> v \<and> v \<le> b"
proof -
  assume ab: "a \<le> b"
  have pos: "0 < nat (b - a + 1)" using ab by simp
  have "e mod nat (b - a + 1) < nat (b - a + 1)" using pos by (rule mod_less_divisor)
  then have "int (e mod nat (b - a + 1)) \<le> b - a" using ab by linarith
  then show ?thesis using ab by (simp add: randint_def)
qed

text \<open>Every value of the range is drawn for some entropy: the model leaves none out.\<close>

lemma randint_onto:
  "a \<le> v \<Longrightarrow> v \<le> b \<Longrightarrow> randint a b (nat (v - a)) = Inr v"
  by (simp add: randint_def)

lemma choice_member:
  "seq \<noteq> [] \<Longrightarrow> \<exists>x. choice seq e = Inr x \<and> x \<in> set seq"
  by (simp add: choice_def)

lemma choice_onto:
  "i < length seq \<Longrightarrow> choice seq i = Inr (seq ! i)"
  by (auto simp: choice_def)

lemma digit_char_is_digit: "is_digit (digit_char k)"
proof -
  have "k mod 10 = 0 \<or> k mod 10 = 1 \<or> k mod 10 = 2 \<or> k mod 10 = 3 \<or> k mod 10 = 4 \<or>
        k mod 10 = 5 \<or> k mod 10 = 6 \<or> k mod 10 = 7 \<or> k mod 10 = 8 \<or> k mod 10 = 9"
    by arith
  then show ?thesis
    unfolding digit_char_def is_digit_def by (elim disjE) simp_all
qed


lemma digit_val_digit_char: "digit_val (digit_char k) = k mod 10"
proof -
  have "k mod 10 = 0 \<or> k mod 10 = 1 \<or> k mod 10 = 2 \<or> k mod 10 = 3 \<or> k mod 10 = 4 \<or>
        k mod 10 = 5 \<or> k mod 10 = 6 \<or> k mod 10 = 7 \<or> k mod 10 = 8 \<or> k mod 10 = 9"
    by arith
  then show ?thesis
    unfolding digit_char_def digit_val_def by (elim disjE) simp_all
qed

lemma read_two_digits:
  assumes "n < 100"
  shows "read_two (digit_char (n div 10)) (digit_char n) = Some n"
proof -
  have "n div 10 < 10" using assms by simp
  then have "10 * (n div 10 mod 10) + n mod 10 = n" by simp
  then show ?thesis
    by (simp add: read_two_def digit_char_is_digit digit_val_digit_char)
qed

text \<open>
  Reading back what \<open>strftime("%H:%M:%S")\<close> printed gives the hour, minute and
  second of the clock.
\<close>

lemma parse_strftime_HMS:
  "parse_HMS (strftime_HMS now) = Some (now div 3600 mod 24, now div 60 mod 60, now mod 60)"
proof -
  have h: "read_two (digit_char (now div 3600 mod 24 div 10)) (digit_char (now div 3600 mod 24))
             = Some (now div 3600 mod 24)"
    by (rule read_two_digits) (simp add: less_trans [OF mod_less_divisor])
  have m: "read_two (digit_char (now div 60 mod 60 div 10)) (digit_char (now div 60 mod 60))
             = Some (now div 60 mod 60)"
    by (rule read_two_digits) (simp add: less_trans [OF mod_less_divisor])
  have s: "read_two (digit_char (now mod 60 div 10)) (digit_char (now mod 60))
             = Some (now mod 60)"
    by (rule read_two_digits) (simp add: less_trans [OF mod_less_divisor])
  show ?thesis
    by (simp add: parse_HMS_def strftime_HMS_def two_digits_def h m s)
qed

lemma clock_seconds:
  "3600 * (now div 3600 mod 24) + 60 * (now div 60 mod 60) + now mod 60 = now mod 86400"
  for now :: nat
proof -
  have a: "now mod 86400 = 3600 * (now div 3600 mod 24) + now mod 3600"
    using mod_mult2_eq [of now 3600 24] by simp
  have b: "now mod 3600 = 60 * (now div 60 mod 60) + now mod 60"
    using mod_mult2_eq [of now 60 60] by simp
  show ?thesis
    using a b by simp
qed

section \<open>The generator\<close>

lemma generate_mock_data_eq:
  "\<exists>t h k w.
     generate_mock_data self c e now =
       Inr (self\<lparr>city := c, temperature := t, humidity := h, condition := k,
                 wind_speed := w, timestamp := strftime_HMS now\<rparr>) \<and>
     - 10 \<le> t \<and> t \<le> 40 \<and> 20 \<le> h \<and> h \<le> 100 \<and> 0 \<le> w \<and> w \<le> 50 \<and>
     k \<in> set CONDITIONS"
proof -
  obtain t where t: "randint (- 10) 40 (e_temperature e) = Inr t" "- 10 \<le> t" "t \<le> 40"
    using randint_range [of "- 10" 40 "e_temperature e"] by auto
  obtain h where h: "randint 20 100 (e_humidity e) = Inr h" "20 \<le> h" "h \<le> 100"
    using randint_range [of 20 100 "e_humidity e"] by auto
  obtain w where w: "randint 0 50 (e_wind_speed e) = Inr w" "0 \<le> w" "w \<le> 50"
    using randint_range [of 0 50 "e_wind_speed e"] by auto
  have "CONDITIONS \<noteq> []" by (simp add: CONDITIONS_def)
  then obtain k where k: "choice CONDITIONS (e_condition e) = Inr k" "k \<in> set CONDITIONS"
    using choice_member by blast
  have "generate_mock_data self c e now =
       Inr (self\<lparr>city := c, temperature := t, humidity := h, condition := k,
                 wind_speed := w, timestamp := strftime_HMS now\<rparr>)"
    using t(1) h(1) w(1) k(1) by (simp add: generate_mock_data_def)
  then show ?thesis
    using t(2,3) h(2,3) w(2,3) k(2) by blast
qed

text \<open>
  Claim C2. For every city, every state of the collector object, every outcome of
  the random draws and every time of the call, \<open>generate_mock_data\<close> returns a
  reading (it does not raise) for that city whose temperature is an integer of
  \<open>[-10, 40]\<close>, whose humidity is an integer of \<open>[20, 100]\<close>, whose wind speed is an
  integer of \<open>[0, 50]\<close> and whose condition is one of the six entries of
  \<open>CONDITIONS\<close>.
\<close>

theorem generate_mock_data_ranges:
  "\<exists>r. generate_mock_data self c e now = Inr r \<and> city r = c \<and>
       - 10 \<le> temperature r \<and> temperature r \<le> 40 \<and>
       20 \<le> humidity r \<and> humidity r \<le> 100 \<and>
       0 \<le> wind_speed r \<and> wind_speed r \<le> 50 \<and>
       condition r \<in> set CONDITIONS \<and>
       set CONDITIONS = {''Sunny'', ''Cloudy'', ''Rainy'', ''Stormy'', ''Snowy'', ''Windy''}"
proof -
  obtain t h k w where g:
      "generate_mock_data self c e now =
         Inr (self\<lparr>city := c, temperature := t, humidity := h, condition := k,
                   wind_speed := w, timestamp := strftime_HMS now\<rparr>)"
      "- 10 \<le> t" "t \<le> 40" "20 \<le> h" "h \<le> 100" "0 \<le> w" "w \<le> 50" "k \<in> set CONDITIONS"
    using generate_mock_data_eq [of self c e now] by blast
  have cs: "set CONDITIONS = {''Sunny'', ''Cloudy'', ''Rainy'', ''Stormy'', ''Snowy'', ''Windy''}"
    by (simp add: CONDITIONS_def)
  show ?thesis
    unfolding g(1) using g(2-8) cs by simp
qed

theorem generate_mock_data_ranges_witness:
  "\<exists>r. generate_mock_data WeatherDataCollector_init ''Tokyo''
          \<lparr>e_temperature = 50, e_humidity = 81, e_condition = 7, e_wind_speed = 51\<rparr> 45296
          = Inr r \<and>
       city r = ''Tokyo'' \<and>
       - 10 \<le> temperature r \<and> temperature r \<le> 40 \<and>
       20 \<le> humidity r \<and> humidity r \<le> 100 \<and>
       0 \<le> wind_speed r \<and> wind_speed r \<le> 50 \<and>
       condition r \<in> set CONDITIONS \<and>
       set CONDITIONS = {''Sunny'', ''Cloudy'', ''Rainy'', ''Stormy'', ''Snowy'', ''Windy''}"
  by (rule generate_mock_data_ranges)

section \<open>The log line\<close>

lemma substitute_literal:
  "CHR ''<'' \<notin> set lit \<Longrightarrow> substitute env (lit @ rest) = lit @ substitute env rest"
  by (induction lit) (auto simp: substitute.simps)

lemma substitute_field:
  assumes "CHR ''>'' \<notin> set name" and "map_of env name = Some v"
  shows "substitute env (CHR ''<'' # name @ CHR ''>'' # rest) = v @ substitute env rest"
proof -
  have tw: "takeWhile (\<lambda>x. x \<noteq> CHR ''>'') (name @ CHR ''>'' # rest) = name"
    using assms(1) by (induction name) auto
  have dw: "dropWhile (\<lambda>x. x \<noteq> CHR ''>'') (name @ CHR ''>'' # rest) = CHR ''>'' # rest"
    using assms(1) by (induction name) auto
  show ?thesis
    by (subst substitute.simps) (simp add: tw dw assms(2))
qed

lemma substitute_literal_field:
  assumes "CHR ''<'' \<notin> set lit" and "CHR ''>'' \<notin> set name" and "map_of env name = Some v"
  shows "substitute env (lit @ CHR ''<'' # name @ CHR ''>'' # rest) = lit @ v @ substitute env rest"
  using assms by (simp add: substitute_literal substitute_field)

lemma to_string_spec: "to_string r = spec_log_line r"
proof -
  let ?env = "[(''city'', city r), (''temp'', str_int (temperature r)),
        (''condition'', condition r), (''humidity'', str_int (humidity r)),
        (''wind'', str_int (wind_speed r)), (''HH:MM:SS'', timestamp r)]"
  have 1: "substitute ?env log_line_format =
        city r @ substitute ?env ('': <temp>'' @ [degree_sign] @
           ''C, <condition>, Humidity: <humidity>%, Wind: <wind> km/h [<HH:MM:SS>]'')"
    using substitute_literal_field [of "[]" "''city''" ?env "city r"
        "'': <temp>'' @ [degree_sign] @
           ''C, <condition>, Humidity: <humidity>%, Wind: <wind> km/h [<HH:MM:SS>]''"]
    by (simp add: log_line_format_def)
  have 2: "substitute ?env ('': <temp>'' @ [degree_sign] @
           ''C, <condition>, Humidity: <humidity>%, Wind: <wind> km/h [<HH:MM:SS>]'') =
        '': '' @ str_int (temperature r) @ substitute ?env ([degree_sign] @
           ''C, <condition>, Humidity: <humidity>%, Wind: <wind> km/h [<HH:MM:SS>]'')"
    using substitute_literal_field [of "'': ''" "''temp''" ?env "str_int (temperature r)"
        "[degree_sign] @
           ''C, <condition>, Humidity: <humidity>%, Wind: <wind> km/h [<HH:MM:SS>]''"]
    by simp
  have 3: "substitute ?env ([degree_sign] @
           ''C, <condition>, Humidity: <humidity>%, Wind: <wind> km/h [<HH:MM:SS>]'') =
        ([degree_sign] @ ''C, '') @ condition r @ substitute ?env
           '', Humidity: <humidity>%, Wind: <wind> km/h [<HH:MM:SS>]''"
    using substitute_literal_field [of "[degree_sign] @ ''C, ''" "''condition''" ?env
        "condition r" "'', Humidity: <humidity>%, Wind: <wind> km/h [<HH:MM:SS>]''"]
    by (simp add: degree_sign_def)
  have 4: "substitute ?env '', Humidity: <humidity>%, Wind: <wind> km/h [<HH:MM:SS>]'' =
        '', Humidity: '' @ str_int (humidity r) @ substitute ?env
           ''%, Wind: <wind> km/h [<HH:MM:SS>]''"
    using substitute_literal_field [of "'', Humidity: ''" "''humidity''" ?env
        "str_int (humidity r)" "''%, Wind: <wind> km/h [<HH:MM:SS>]''"]
    by simp
  have 5: "substitute ?env ''%, Wind: <wind> km/h [<HH:MM:SS>]'' =
        ''%, Wind: '' @ str_int (wind_speed r) @ substitute ?env '' km/h [<HH:MM:SS>]''"
    using substitute_literal_field [of "''%, Wind: ''" "''wind''" ?env
        "str_int (wind_speed r)" "'' km/h [<HH:MM:SS>]''"]
    by simp
  have 6: "substitute ?env '' km/h [<HH:MM:SS>]'' =
        '' km/h ['' @ timestamp r @ substitute ?env '']''"
    using substitute_literal_field [of "'' km/h [''" "''HH:MM:SS''" ?env
        "timestamp r" "'']''"]
    by simp
  have 7: "substitute ?env '']'' = '']''"
    using substitute_literal [of "'']''" ?env "[]"] by (simp add: substitute.simps)
  show ?thesis
    unfolding spec_log_line_def to_string_def
    by (simp only: 1 2 3 4 5 6 7) simp
qed

text \<open>
  Claim C6. The line rendered for a reading is the template
  \<open><city>: <temp>(degree sign)C, <condition>, Humidity: <humidity>%, Wind: <wind> km/h [<HH:MM:SS>]\<close>
  with the fields of the reading substituted, the integers in decimal. For a
  generated reading the text between the square brackets is the time of day of
  the call of \<open>generate_mock_data\<close>: read as \<open>HH:MM:SS\<close> it gives the hour, the
  minute and the second of that clock, which together are its seconds since
  midnight.
\<close>

theorem to_string_is_log_line:
  "to_string r = spec_log_line r \<and>
   (\<exists>d. generate_mock_data self c e now = Inr d \<and> city d = c \<and>
        parse_HMS (timestamp d) = Some (now div 3600 mod 24, now div 60 mod 60, now mod 60) \<and>
        3600 * (now div 3600 mod 24) + 60 * (now div 60 mod 60) + now mod 60 = now mod 86400 \<and>
        to_string d = spec_log_line d \<and>
        to_string d =
          c @ '': '' @ str_int (temperature d) @ [degree_sign] @ ''C, '' @ condition d @
          '', Humidity: '' @ str_int (humidity d) @ ''%, Wind: '' @ str_int (wind_speed d) @
          '' km/h ['' @ timestamp d @ '']'')"
proof -
  obtain t h k w where g:
      "generate_mock_data self c e now =
         Inr (self\<lparr>city := c, temperature := t, humidity := h, condition := k,
                   wind_speed := w, timestamp := strftime_HMS now\<rparr>)"
    using generate_mock_data_eq [of self c e now] by blast
  show ?thesis
    unfolding g
    by (simp add: to_string_spec [symmetric] parse_strftime_HMS clock_seconds to_string_def)
qed

theorem to_string_is_log_line_witness:
  "\<exists>d. generate_mock_data WeatherDataCollector_init ''Tokyo''
          \<lparr>e_temperature = 5, e_humidity = 81, e_condition = 7, e_wind_speed = 51\<rparr> 45296
          = Inr d \<and>
       parse_HMS (timestamp d) = Some (12, 34, 56) \<and>
       spec_log_line d =
         ''Tokyo: -5'' @ [CHR 0xB0] @ ''C, Cloudy, Humidity: 20%, Wind: 0 km/h [12:34:56]''"
proof -
  let ?e = "\<lparr>e_temperature = 5, e_humidity = 81, e_condition = 7, e_wind_speed = 51\<rparr>"
  have s5: "str_nat 5 = ''5''" and s20: "str_nat 20 = ''20''" and s0: "str_nat 0 = ''0''"
    by code_simp+
  have g: "generate_mock_data WeatherDataCollector_init ''Tokyo'' ?e 45296 =
      Inr \<lparr>city = ''Tokyo'', temperature = - 5, humidity = 20, condition = ''Cloudy'',
           wind_speed = 0, timestamp = ''12:34:56''\<rparr>"
    by (simp add: generate_mock_data_def randint_def choice_def CONDITIONS_def
        WeatherDataCollector_init_def strftime_HMS_def two_digits_def digit_char_def)
  obtain d where d:
      "generate_mock_data WeatherDataCollector_init ''Tokyo'' ?e 45296 = Inr d"
      "parse_HMS (timestamp d) = Some (45296 div 3600 mod 24, 45296 div 60 mod 60, 45296 mod 60)"
      "to_string d = spec_log_line d"
    using to_string_is_log_line [of "WeatherDataCollector_init" WeatherDataCollector_init
        "''Tokyo''" ?e 45296]
    by blast
  have dv: "d = \<lparr>city = ''Tokyo'', temperature = - 5, humidity = 20, condition = ''Cloudy'',
           wind_speed = 0, timestamp = ''12:34:56''\<rparr>"
    using d(1) g by simp
  have p: "parse_HMS (timestamp d) = Some (12, 34, 56)"
    using d(2) by simp
  have "spec_log_line d =
         ''Tokyo: -5'' @ [CHR 0xB0] @ ''C, Cloudy, Humidity: 20%, Wind: 0 km/h [12:34:56]''"
    unfolding d(3) [symmetric]
    by (simp add: dv to_string_def str_int_def degree_sign_def s5 s20 s0)
  then show ?thesis
    using d(1) p by blast
qed

section \<open>The operations in closed form\<close>

lemma drain_eq:
  "drain s = s\<lparr>data_queue := [], data_text := data_text s @ log_lines (data_queue s),
               data_text_end_seen := (data_text_end_seen s \<or> data_queue s \<noteq> [])\<rparr>"
proof (induction "data_queue s" arbitrary: s)
  case Nil
  then have q: "data_queue s = []" by simp
  show ?case
    by (subst drain.simps) (simp add: q get_nowait_def log_lines_def)
next
  case (Cons d q)
  then have dq: "data_queue s = d # q" by simp
  let ?s1 = "s\<lparr>data_queue := q, data_text := data_text s @ (d @ [newline]),
                 data_text_end_seen := True\<rparr>"
  have "drain s = drain ?s1"
    by (subst drain.simps) (simp add: dq get_nowait_def)
  also have "\<dots> = ?s1\<lparr>data_queue := [], data_text := data_text ?s1 @ log_lines (data_queue ?s1),
               data_text_end_seen := (data_text_end_seen ?s1 \<or> data_queue ?s1 \<noteq> [])\<rparr>"
    using Cons.hyps(1) [of ?s1] by simp
  finally show ?case
    by (simp add: dq log_lines_def)
qed

lemma process_queue_eq:
  "process_queue s =
     s\<lparr>data_queue := [], data_text := data_text s @ log_lines (data_queue s),
       data_text_end_seen := (data_text_end_seen s \<or> data_queue s \<noteq> []),
       after_calls := after_calls s @ [(100, ProcessQueue)]\<rparr>"
  by (simp add: process_queue_def drain_eq)

lemma collect_weather_round_eq:
  "\<exists>d. generate_mock_data WeatherDataCollector_init c e now = Inr d \<and>
       collect_weather_round c e now s =
         (if collecting s then s\<lparr>data_queue := data_queue s @ [to_string d]\<rparr> else s)"
proof -
  obtain d where "generate_mock_data WeatherDataCollector_init c e now = Inr d"
    using generate_mock_data_eq [of WeatherDataCollector_init c e now] by blast
  then show ?thesis by (simp add: collect_weather_round_def put_def)
qed

lemma float_of_int_small: "\<bar>x\<bar> < 2 ^ 53 \<Longrightarrow> float_of_int x = Inr x"
proof -
  assume "\<bar>x\<bar> < 2 ^ 53"
  then have "nat \<bar>x\<bar> < 2 ^ 53" by (simp add: nat_less_iff)
  then show ?thesis by (simp add: float_of_int_def)
qed

lemma float_of_int_error: "float_of_int x = Inl err \<Longrightarrow> err = OverflowError"
  by (auto simp: float_of_int_def Let_def split: if_splits)

lemma spawn_eq:
  assumes "0 < n" and "n \<le> 2 ^ 53"
  shows "spawn n ics s =
     (Returned,
      s\<lparr>threads := threads s @
           map (\<lambda>(i, c). \<lparr>arg_city = c, arg_delay = of_int (int i mod n) * (1 / 2),
                           daemon = True, started = True\<rparr>) ics\<rparr>)"
proof (induction ics arbitrary: s)
  case Nil
  show ?case by simp
next
  case (Cons ic ics)
  obtain i c where ic: "ic = (i, c)" by (cases ic)
  have "0 \<le> int i mod n" and "int i mod n < n" using assms(1) by simp_all
  then have "\<bar>int i mod n\<bar> < 2 ^ 53" using assms(2) by linarith
  then have f: "float_of_int (int i mod n) = Inr (int i mod n)"
    by (rule float_of_int_small)
  show ?case
    using assms(1) by (simp add: ic f Cons.IH Thread_new_def Thread_start_def)
qed

lemma spawn_zero:
  "ics \<noteq> [] \<Longrightarrow> spawn 0 ics s = (Raised ZeroDivisionError, s)"
  by (cases ics) auto

text \<open>
  Whatever the worker count and however the loop ends, it has only added started
  daemon threads to the list.
\<close>

lemma spawn_threads:
  "\<exists>r new. spawn n ics s = (r, s\<lparr>threads := threads s @ new\<rparr>) \<and>
           (\<forall>t \<in> set new. started t \<and> daemon t)"
proof (induction ics arbitrary: s)
  case Nil
  have "spawn n [] s = (Returned, s\<lparr>threads := threads s @ []\<rparr>)" by simp
  then show ?case by fastforce
next
  case (Cons ic ics)
  obtain i c where ic: "ic = (i, c)" by (cases ic)
  have same: "s = s\<lparr>threads := threads s @ []\<rparr>" by simp
  show ?case
  proof (cases "n = 0")
    case True
    then have "spawn n (ic # ics) s = (Raised ZeroDivisionError, s\<lparr>threads := threads s @ []\<rparr>)"
      by (simp add: ic)
    then show ?thesis by fastforce
  next
    case n0: False
    show ?thesis
    proof (cases "float_of_int (int i mod n)")
      case (Inl x)
      then have "spawn n (ic # ics) s = (Raised x, s\<lparr>threads := threads s @ []\<rparr>)"
        using n0 by (simp add: ic)
      then show ?thesis by fastforce
    next
      case (Inr f)
      let ?t = "\<lparr>arg_city = c, arg_delay = of_int f * (1 / 2), daemon = True, started = True\<rparr>"
      let ?s1 = "s\<lparr>threads := threads s @ [?t]\<rparr>"
      obtain r new where new: "spawn n ics ?s1 = (r, ?s1\<lparr>threads := threads ?s1 @ new\<rparr>)"
          "\<forall>t \<in> set new. started t \<and> daemon t"
        using Cons.IH [of ?s1] by blast
      have "spawn n (ic # ics) s = (r, s\<lparr>threads := threads s @ (?t # new)\<rparr>)"
        using n0 Inr new(1) by (simp add: ic Thread_new_def Thread_start_def)
      moreover have "\<forall>t \<in> set (?t # new). started t \<and> daemon t"
        using new(2) by simp
      ultimately show ?thesis by blast
    qed
  qed
qed

lemma spawn_data_text: "data_text (snd (spawn n ics s)) = data_text s"
proof -
  obtain r new where "spawn n ics s = (r, s\<lparr>threads := threads s @ new\<rparr>)"
    using spawn_threads [of n ics s] by blast
  then show ?thesis by simp
qed

lemma start_collection_empty:
  "get_selected_cities s = [] \<Longrightarrow>
   start_collection s =
     (Returned, s\<lparr>info_label := (''Please select at least one city!'', ''red'')\<rparr>)"
  by (simp add: start_collection_def)

lemma start_collection_bad_count:
  "get_selected_cities s \<noteq> [] \<Longrightarrow> py_int (thread_count s) = Inl x \<Longrightarrow>
   start_collection s = (Raised x, s\<lparr>collecting := True, data_text := []\<rparr>)"
  by (simp add: start_collection_def)

lemma start_collection_zero:
  "get_selected_cities s \<noteq> [] \<Longrightarrow> py_int (thread_count s) = Inr 0 \<Longrightarrow>
   start_collection s = (Raised ZeroDivisionError, s\<lparr>collecting := True, data_text := []\<rparr>)"
  by (simp add: start_collection_def spawn_zero enumerate_eq_zip)

lemma start_collection_ok:
  "get_selected_cities s \<noteq> [] \<Longrightarrow> py_int (thread_count s) = Inr n \<Longrightarrow>
   0 < n \<Longrightarrow> n \<le> 2 ^ 53 \<Longrightarrow>
   start_collection s =
     (Returned,
      s\<lparr>collecting := True, data_text := [],
        threads := threads s @ workers_for n (get_selected_cities s),
        start_btn := Disabled, stop_btn := Normal,
        info_label := (collecting_message (length (get_selected_cities s)) n, ''green'')\<rparr>)"
  by (simp add: start_collection_def spawn_eq workers_for_def Let_def)

lemma start_collection_cases:
  assumes "start_collection s = (r, s')"
  obtains
    (empty) "get_selected_cities s = []" "r = Returned"
      "s' = s\<lparr>info_label := (''Please select at least one city!'', ''red'')\<rparr>"
  | (raised) x new where "get_selected_cities s \<noteq> []" "r = Raised x"
      "s' = s\<lparr>collecting := True, data_text := [], threads := threads s @ new\<rparr>"
      "\<forall>t \<in> set new. started t \<and> daemon t"
  | (ok) n new where "get_selected_cities s \<noteq> []" "py_int (thread_count s) = Inr n"
      "r = Returned"
      "s' = s\<lparr>collecting := True, data_text := [], threads := threads s @ new,
              start_btn := Disabled, stop_btn := Normal,
              info_label := (collecting_message (length (get_selected_cities s)) n, ''green'')\<rparr>"
      "\<forall>t \<in> set new. started t \<and> daemon t"
proof (cases "get_selected_cities s = []")
  case True
  then show ?thesis using assms empty by (auto simp: start_collection_empty)
next
  case sel: False
  let ?s2 = "s\<lparr>collecting := True, data_text := []\<rparr>"
  show ?thesis
  proof (cases "py_int (thread_count s)")
    case (Inl x)
    then have "r = Raised x" "s' = ?s2\<lparr>threads := threads s @ []\<rparr>"
      using assms sel by (auto simp: start_collection_bad_count)
    then show ?thesis using sel raised [of x "[]"] by simp
  next
    case (Inr n)
    obtain q new where sp:
        "spawn n (enumerate 0 (get_selected_cities s)) ?s2 = (q, ?s2\<lparr>threads := threads ?s2 @ new\<rparr>)"
        "\<forall>t \<in> set new. started t \<and> daemon t"
      using spawn_threads [of n "enumerate 0 (get_selected_cities s)" ?s2] by blast
    show ?thesis
    proof (cases q)
      case Returned
      then show ?thesis
        using assms sel Inr sp ok [of n new] by (simp add: start_collection_def)
    next
      case (Raised x)
      then show ?thesis
        using assms sel Inr sp raised [of x new] by (simp add: start_collection_def)
    qed
  qed
qed

lemma workers_for_nth:
  "i < length cities \<Longrightarrow>
     workers_for n cities ! i =
       \<lparr>arg_city = cities ! i, arg_delay = of_int (int i mod n) * (1 / 2),
        daemon = True, started = True\<rparr>"
  by (simp add: workers_for_def nth_enumerate_eq)

lemma workers_for_length: "length (workers_for n cities) = length cities"
  by (simp add: workers_for_def)

lemma workers_for_cities: "map arg_city (workers_for n cities) = cities"
  by (rule nth_equalityI) (simp_all add: workers_for_length workers_for_nth)

lemma workers_for_started: "\<forall>t \<in> set (workers_for n cities). started t \<and> daemon t"
  by (auto simp: workers_for_def)

lemma join_each_ok:
  "\<forall>t \<in> set ts. started t \<Longrightarrow>
   \<exists>ws. join_each ends i clock ts = Inr ws \<and> length ws = length ts \<and>
        (\<forall>w \<in> set ws. 0 \<le> w \<and> w \<le> 1)"
proof (induction ts arbitrary: i clock)
  case Nil
  show ?case by simp
next
  case (Cons t ts)
  have st: "started t" using Cons.prems by simp
  define w where "w = (case map_option (\<lambda>e. e - clock) (ends i) of
                         None \<Rightarrow> (1::rat) | Some r \<Rightarrow> min 1 (max 0 r))"
  have j: "join 1 t (map_option (\<lambda>e. e - clock) (ends i)) = Inr w"
    by (simp add: join_def st w_def)
  have wb: "0 \<le> w \<and> w \<le> 1"
    by (auto simp: w_def split: option.splits)
  obtain ws where ws: "join_each ends (Suc i) (clock + w) ts = Inr ws"
      "length ws = length ts" "\<forall>w \<in> set ws. 0 \<le> w \<and> w \<le> 1"
    using Cons.IH [of "Suc i" "clock + w"] Cons.prems by auto
  show ?case
    using j ws wb by simp
qed

lemma sum_list_bounded:
  "\<forall>w \<in> set ws. w \<le> (1::rat) \<Longrightarrow> sum_list ws \<le> of_nat (length ws)"
  by (induction ws) auto

lemma stop_collection_ok:
  assumes "\<forall>t \<in> set (threads s). started t"
  shows "\<exists>ws. stop_collection ends s =
           (Returned, ws,
            s\<lparr>collecting := False, threads := [], start_btn := Normal, stop_btn := Disabled,
              info_label := (''Collection stopped'', ''red'')\<rparr>) \<and>
         length ws = length (threads s) \<and> (\<forall>w \<in> set ws. 0 \<le> w \<and> w \<le> 1)"
proof -
  obtain ws where ws: "join_each ends 0 0 (threads s) = Inr ws"
      "length ws = length (threads s)" "\<forall>w \<in> set ws. 0 \<le> w \<and> w \<le> 1"
    using join_each_ok [OF assms, of ends 0 0] by blast
  show ?thesis
    using ws by (simp add: stop_collection_def)
qed

lemma stop_collection_returned:
  "stop_collection ends s = (Returned, ws, s') \<Longrightarrow>
   s' = s\<lparr>collecting := False, threads := [], start_btn := Normal, stop_btn := Disabled,
          info_label := (''Collection stopped'', ''red'')\<rparr>"
  by (auto simp: stop_collection_def Let_def split: sum.splits)

lemma collect_weather_rounds_eq:
  "collect_weather_rounds rs s =
     (if collecting s then
        s\<lparr>data_queue := data_queue s @
             map (\<lambda>(c, e, now).
                    to_string (projr (generate_mock_data WeatherDataCollector_init c e now))) rs\<rparr>
      else s)"
proof (induction rs arbitrary: s)
  case Nil
  show ?case by (simp add: collect_weather_rounds_def)
next
  case (Cons r rs)
  obtain c e now where r: "r = (c, e, now)" by (cases r)
  obtain d where d: "generate_mock_data WeatherDataCollector_init c e now = Inr d"
      "collect_weather_round c e now s =
         (if collecting s then s\<lparr>data_queue := data_queue s @ [to_string d]\<rparr> else s)"
    using collect_weather_round_eq [of c e now s] by blast
  have step: "collect_weather_rounds (r # rs) s =
      collect_weather_rounds rs (collect_weather_round c e now s)"
    by (simp add: collect_weather_rounds_def r)
  show ?case
    unfolding step Cons.IH d(2) by (simp add: r d(1))
qed

lemma workers_for_delays:
  assumes "0 < n"
  shows "card (arg_delay ` set (workers_for n cities)) \<le> nat n"
proof -
  have "arg_delay ` set (workers_for n cities) \<subseteq> (\<lambda>j. of_int j * (1 / 2)) ` {0..<n}"
  proof
    fix d assume "d \<in> arg_delay ` set (workers_for n cities)"
    then obtain i :: nat where "d = of_int (int i mod n) * (1 / 2)"
      by (auto simp: workers_for_def)
    moreover have "int i mod n \<in> {0..<n}" using assms by simp
    ultimately show "d \<in> (\<lambda>j. of_int j * (1 / 2)) ` {0..<n}" by blast
  qed
  then have "card (arg_delay ` set (workers_for n cities)) \<le>
             card ((\<lambda>j. rat_of_int j * (1 / 2)) ` {0..<n})"
    by (intro card_mono) simp_all
  also have "\<dots> \<le> card {0..<n}" by (rule card_image_le) simp
  also have "\<dots> = nat n" by simp
  finally show ?thesis .
qed

section \<open>Initialisation\<close>

text \<open>
  \<open>__init__\<close> does not return: \<open>setup_ui\<close> raises AttributeError at the call of
  \<open>set\<close> on the spin box, when the cities, both buttons and the spin box exist and
  the text area, the label and the first call of \<open>process_queue\<close> are still to
  come.
\<close>

lemma WeatherGUI_init_raises:
  "WeatherGUI_init =
     (Raised AttributeError,
      \<lparr>collecting = False, threads = [], data_queue = [],
       city_vars = map (\<lambda>c. (c, True)) CITIES,
       start_btn = Normal, stop_btn = Disabled, thread_count = ''1'',
       data_text = '''', data_text_end_seen = False,
       info_label = ('''', ''''), after_calls = []\<rparr>)"
  by (simp add: WeatherGUI_init_def setup_ui_def Spinbox_set_def)

section \<open>A window to evaluate on\<close>

lemma py_int_3: "py_int ''3'' = Inr 3"
  by (simp add: py_int_def strip_def is_space_def parse_unsigned_def is_digit_def digit_val_def)

lemma py_int_abc: "py_int ''abc'' = Inl ValueError"
  by (simp add: py_int_def strip_def is_space_def parse_unsigned_def is_digit_def)

lemma CITIES_nonempty: "CITIES \<noteq> []" "length CITIES = 10"
  by (simp_all add: CITIES_def)

lemma all_checked: "map fst (filter snd (map (\<lambda>c. (c, True)) cs)) = cs"
  by (induction cs) simp_all

lemma none_checked: "map fst (filter snd (map (\<lambda>c. (c, False)) cs)) = []"
  by (induction cs) simp_all

lemma selected_all:
  "city_vars s = map (\<lambda>c. (c, True)) cs \<Longrightarrow> get_selected_cities s = cs"
  by (simp only: get_selected_cities_def all_checked)

lemma selected_none:
  "city_vars s = map (\<lambda>c. (c, False)) cs \<Longrightarrow> get_selected_cities s = []"
  by (simp only: get_selected_cities_def none_checked)

lemma start_from_window:
  "start_collection \<lparr>collecting = False, threads = [], data_queue = [],
        city_vars = map (\<lambda>c. (c, True)) CITIES,
        start_btn = Normal, stop_btn = Disabled, thread_count = ''3'',
        data_text = '''', data_text_end_seen = False,
        info_label = (''Ready to collect weather data'', ''blue''),
        after_calls = [(100, ProcessQueue)]\<rparr> =
     (Returned,
      \<lparr>collecting = False, threads = [], data_queue = [],
        city_vars = map (\<lambda>c. (c, True)) CITIES,
        start_btn = Normal, stop_btn = Disabled, thread_count = ''3'',
        data_text = '''', data_text_end_seen = False,
        info_label = (''Ready to collect weather data'', ''blue''),
        after_calls = [(100, ProcessQueue)]\<rparr>\<lparr>collecting := True, data_text := [],
        threads := workers_for 3 CITIES,
        start_btn := Disabled, stop_btn := Normal,
        info_label := (collecting_message 10 3, ''green'')\<rparr>)"
proof -
  let ?w = "\<lparr>collecting = False, threads = [], data_queue = [],
        city_vars = map (\<lambda>c. (c, True)) CITIES,
        start_btn = Normal, stop_btn = Disabled, thread_count = ''3'',
        data_text = '''', data_text_end_seen = False,
        info_label = (''Ready to collect weather data'', ''blue''),
        after_calls = [(100, ProcessQueue)]\<rparr>"
  have sel: "get_selected_cities ?w = CITIES"
    by (rule selected_all) simp
  have tc: "py_int (thread_count ?w) = Inr 3"
    by (simp add: py_int_3)
  have "start_collection ?w =
     (Returned,
      ?w\<lparr>collecting := True, data_text := [],
        threads := threads ?w @ workers_for 3 (get_selected_cities ?w),
        start_btn := Disabled, stop_btn := Normal,
        info_label := (collecting_message (length (get_selected_cities ?w)) 3, ''green'')\<rparr>)"
    by (rule start_collection_ok) (simp_all add: sel py_int_3 CITIES_nonempty)
  then show ?thesis
    unfolding sel by (simp add: CITIES_nonempty)
qed

section \<open>Invariant of the running application\<close>

text \<open>
  In every reachable state each thread of the list has been started as a daemon.
\<close>

lemma reachable_threads:
  "reachable s \<Longrightarrow> \<forall>t \<in> set (threads s). started t \<and> daemon t"
proof (induction rule: reachable.induct)
  case (r_idle s)
  then show ?case by simp
next
  case (r_check s i b)
  then show ?case by simp
next
  case (r_spin s x)
  then show ?case by simp
next
  case (r_edit s x)
  then show ?case by simp
next
  case (r_start s r s')
  from r_start.hyps(3) show ?case
  proof (cases rule: start_collection_cases)
    case empty
    then show ?thesis using r_start.IH by simp
  next
    case (raised x new)
    then show ?thesis using r_start.IH by auto
  next
    case (ok n new)
    then show ?thesis using r_start.IH by auto
  qed
next
  case (r_stop s ends r ws s')
  have "\<forall>t \<in> set (threads s). started t" using r_stop.IH by simp
  from stop_collection_ok [OF this, of ends] r_stop.hyps(3)
  show ?case by auto
next
  case (r_close s ends r s')
  have st: "\<forall>t \<in> set (threads s). started t" using r_close.IH by simp
  show ?case
  proof (cases "collecting s")
    case True
    then show ?thesis
      using stop_collection_ok [OF st, of ends] r_close.hyps(2)
      by (auto simp: on_closing_def)
  next
    case False
    then show ?thesis using r_close.hyps(2) r_close.IH by (simp add: on_closing_def)
  qed
next
  case (r_timer s ms rest)
  then show ?case by (simp add: process_queue_eq)
next
  case (r_worker s c e now)
  obtain d where "collect_weather_round c e now s =
         (if collecting s then s\<lparr>data_queue := data_queue s @ [to_string d]\<rparr> else s)"
    using collect_weather_round_eq [of c e now s] by blast
  then show ?case using r_worker.IH by simp
qed

section \<open>Starting with no city selected\<close>

text \<open>
  Claim C1. When no city is selected, \<open>start_collection\<close> returns without raising
  and changes nothing but the status label, which shows the message in red: the
  running flag, the list of threads, the queue, the log and both buttons are as
  they were, so a flag that was false stays false and a list that was empty
  stays empty.
\<close>

theorem start_collection_no_cities:
  "get_selected_cities s = [] \<Longrightarrow>
   \<exists>s'. start_collection s = (Returned, s') \<and>
        s' = s\<lparr>info_label := (''Please select at least one city!'', ''red'')\<rparr> \<and>
        collecting s' = collecting s \<and> threads s' = threads s \<and>
        data_queue s' = data_queue s \<and> data_text s' = data_text s \<and>
        start_btn s' = start_btn s \<and> stop_btn s' = stop_btn s"
  by (simp add: start_collection_empty)

theorem start_collection_no_cities_witness:
  "\<exists>s'. start_collection \<lparr>collecting = False, threads = [], data_queue = [],
        city_vars = map (\<lambda>c. (c, False)) CITIES,
        start_btn = Normal, stop_btn = Disabled, thread_count = ''3'',
        data_text = '''', data_text_end_seen = False,
        info_label = (''Ready to collect weather data'', ''blue''),
        after_calls = [(100, ProcessQueue)]\<rparr> = (Returned, s') \<and>
        info_label s' = (''Please select at least one city!'', ''red'') \<and>
        collecting s' = False \<and> threads s' = [] \<and> data_text s' = [] \<and>
        start_btn s' = Normal \<and> stop_btn s' = Disabled"
proof -
  have h: "get_selected_cities \<lparr>collecting = False, threads = [], data_queue = [],
        city_vars = map (\<lambda>c. (c, False)) CITIES,
        start_btn = Normal, stop_btn = Disabled, thread_count = ''3'',
        data_text = '''', data_text_end_seen = False,
        info_label = (''Ready to collect weather data'', ''blue''),
        after_calls = [(100, ProcessQueue)]\<rparr> = []"
    by (rule selected_none) simp
  show ?thesis
    using start_collection_no_cities [OF h] by auto
qed

section \<open>Starting with cities selected\<close>

text \<open>
  Claim C4. With \<open>k\<close> cities selected, \<open>k > 0\<close>, and a worker count from 1 to 10 in
  the spin box, \<open>start_collection\<close> returns with the running flag set and has added
  exactly \<open>k\<close> started daemon threads to the list, one per selected city in the
  order of selection, however \<open>k\<close> compares with the worker count; the list then
  holds exactly \<open>k\<close> threads when it was empty before, as it is when \<open>__init__\<close> has
  assigned it and after every call of \<open>stop_collection\<close> that returned.
\<close>

theorem start_collection_one_worker_per_city:
  assumes "get_selected_cities s = cities" and "cities \<noteq> []"
    and "py_int (thread_count s) = Inr n" and "1 \<le> n" and "n \<le> 10"
  shows "\<exists>s' new. start_collection s = (Returned, s') \<and> collecting s' \<and>
           threads s' = threads s @ new \<and> length new = length cities \<and>
           map arg_city new = cities \<and> (\<forall>t \<in> set new. started t \<and> daemon t) \<and>
           (threads s = [] \<longrightarrow> length (threads s') = length cities)"
proof -
  have npos: "0 < n" and nle: "n \<le> 2 ^ 53" using assms(4,5) by simp_all
  have sel: "get_selected_cities s \<noteq> []" using assms(1,2) by simp
  show ?thesis
    unfolding start_collection_ok [OF sel assms(3) npos nle] assms(1)
    using workers_for_length [of n cities] workers_for_cities [of n cities]
      workers_for_started [of n cities]
    by simp
qed

theorem start_collection_one_worker_per_city_witness:
  "\<exists>s'. start_collection \<lparr>collecting = False, threads = [], data_queue = [],
        city_vars = map (\<lambda>c. (c, True)) CITIES,
        start_btn = Normal, stop_btn = Disabled, thread_count = ''3'',
        data_text = '''', data_text_end_seen = False,
        info_label = (''Ready to collect weather data'', ''blue''),
        after_calls = [(100, ProcessQueue)]\<rparr> = (Returned, s') \<and> collecting s' \<and>
        length (threads s') = 10 \<and> map arg_city (threads s') = CITIES"
proof -
  let ?w = "\<lparr>collecting = False, threads = [], data_queue = [],
        city_vars = map (\<lambda>c. (c, True)) CITIES,
        start_btn = Normal, stop_btn = Disabled, thread_count = ''3'',
        data_text = '''', data_text_end_seen = False,
        info_label = (''Ready to collect weather data'', ''blue''),
        after_calls = [(100, ProcessQueue)]\<rparr>"
  have sel: "get_selected_cities ?w = CITIES"
    by (rule selected_all) simp
  have tc: "py_int (thread_count ?w) = Inr 3"
    by (simp add: py_int_3)
  have th: "threads ?w = []" by simp
  show ?thesis
    using start_collection_one_worker_per_city [OF sel CITIES_nonempty(1) tc] th
    by (auto simp: CITIES_nonempty(2))
qed

text \<open>
  Claim C5. Under the same conditions the thread added for the city at index \<open>i\<close>
  (counting from 0) has the delay \<open>(i mod n) * 0.5\<close>, where \<open>n\<close> is the worker
  count; the delays of the added threads take at most \<open>n\<close> distinct values.
\<close>

theorem start_collection_stagger:
  assumes "get_selected_cities s = cities" and "cities \<noteq> []"
    and "py_int (thread_count s) = Inr n" and "1 \<le> n" and "n \<le> 10"
  shows "\<exists>s'. start_collection s = (Returned, s') \<and>
           length (threads s') = length (threads s) + length cities \<and>
           (\<forall>i < length cities.
              arg_city (threads s' ! (length (threads s) + i)) = cities ! i \<and>
              arg_delay (threads s' ! (length (threads s) + i)) =
                of_int (int i mod n) * (1 / 2)) \<and>
           card (arg_delay ` set (drop (length (threads s)) (threads s'))) \<le> nat n"
proof -
  have npos: "0 < n" and nle: "n \<le> 2 ^ 53" using assms(4,5) by simp_all
  have sel: "get_selected_cities s \<noteq> []" using assms(1,2) by simp
  show ?thesis
    unfolding start_collection_ok [OF sel assms(3) npos nle] assms(1)
    using workers_for_delays [OF npos, of cities]
    by (simp add: workers_for_length workers_for_nth nth_append)
qed

theorem start_collection_stagger_witness:
  "\<exists>s'. start_collection \<lparr>collecting = False, threads = [], data_queue = [],
        city_vars = map (\<lambda>c. (c, True)) CITIES,
        start_btn = Normal, stop_btn = Disabled, thread_count = ''3'',
        data_text = '''', data_text_end_seen = False,
        info_label = (''Ready to collect weather data'', ''blue''),
        after_calls = [(100, ProcessQueue)]\<rparr> = (Returned, s') \<and>
        map arg_delay (threads s') = [0, 1 / 2, 1, 0, 1 / 2, 1, 0, 1 / 2, 1, 0] \<and>
        card (arg_delay ` set (threads s')) \<le> 3"
proof -
  let ?w = "\<lparr>collecting = False, threads = [], data_queue = [],
        city_vars = map (\<lambda>c. (c, True)) CITIES,
        start_btn = Normal, stop_btn = Disabled, thread_count = ''3'',
        data_text = '''', data_text_end_seen = False,
        info_label = (''Ready to collect weather data'', ''blue''),
        after_calls = [(100, ProcessQueue)]\<rparr>"
  have sel: "get_selected_cities ?w = CITIES"
    by (rule selected_all) simp
  have tc: "py_int (thread_count ?w) = Inr 3"
    by (simp add: py_int_3)
  have th: "threads ?w = []" by simp
  obtain s' where s': "start_collection ?w = (Returned, s')"
      "length (threads s') = length (threads ?w) + length CITIES"
      "\<forall>i < length CITIES.
         arg_city (threads s' ! (length (threads ?w) + i)) = CITIES ! i \<and>
         arg_delay (threads s' ! (length (threads ?w) + i)) =
           of_int (int i mod 3) * (1 / 2)"
      "card (arg_delay ` set (drop (length (threads ?w)) (threads s'))) \<le> nat 3"
    using start_collection_stagger [OF sel CITIES_nonempty(1) tc] by auto
  have len: "length (threads s') = 10" using s'(2) by (simp add: CITIES_nonempty(2))
  have d: "\<forall>i < 10. arg_delay (threads s' ! i) = of_int (int i mod 3) * (1 / 2)"
    using s'(3) by (simp add: CITIES_nonempty(2))
  have "map arg_delay (threads s') = map (\<lambda>i. of_int (int i mod 3) * (1 / 2)) [0..<10]"
    by (rule nth_equalityI) (simp_all add: len d)
  also have "\<dots> = [0, 1 / 2, 1, 0, 1 / 2, 1, 0, 1 / 2, 1, 0]"
    by (simp add: upt_rec)
  finally have m: "map arg_delay (threads s') = [0, 1 / 2, 1, 0, 1 / 2, 1, 0, 1 / 2, 1, 0]" .
  show ?thesis
    using s'(1) s'(4) m by simp
qed

text \<open>
  Claim C9. Whenever at least one city is selected, \<open>start_collection\<close> leaves the
  log empty, whatever it held before and however the call ends. The erasure comes
  first: the loop that creates the threads runs from the state whose log is
  already empty and never writes to the log, and with a worker count from 1 to
  \<open>2^53\<close> it returns and the call ends with the buttons switched and the green
  status line.
\<close>

theorem start_collection_erases_log:
  assumes "get_selected_cities s \<noteq> []"
  shows "data_text (snd (start_collection s)) = [] \<and>
         (\<forall>n. data_text (snd (spawn n (enumerate 0 (get_selected_cities s))
                                (s\<lparr>collecting := True, data_text := []\<rparr>))) = []) \<and>
         (\<forall>n. py_int (thread_count s) = Inr n \<and> 0 < n \<and> n \<le> 2 ^ 53 \<longrightarrow>
            (\<exists>s3. spawn n (enumerate 0 (get_selected_cities s))
                      (s\<lparr>collecting := True, data_text := []\<rparr>) = (Returned, s3) \<and>
                  data_text s3 = [] \<and>
                  start_collection s =
                    (Returned,
                     s3\<lparr>start_btn := Disabled, stop_btn := Normal,
                        info_label :=
                          (collecting_message (length (get_selected_cities s)) n, ''green'')\<rparr>)))"
proof (intro conjI)
  obtain r s' where rs: "start_collection s = (r, s')" by (cases "start_collection s")
  from rs have "data_text s' = []"
    by (cases rule: start_collection_cases) (use assms in simp_all)
  then show "data_text (snd (start_collection s)) = []" by (simp add: rs)
next
  show "\<forall>n. data_text (snd (spawn n (enumerate 0 (get_selected_cities s))
                                (s\<lparr>collecting := True, data_text := []\<rparr>))) = []"
    by (simp add: spawn_data_text)
next
  show "\<forall>n. py_int (thread_count s) = Inr n \<and> 0 < n \<and> n \<le> 2 ^ 53 \<longrightarrow>
            (\<exists>s3. spawn n (enumerate 0 (get_selected_cities s))
                      (s\<lparr>collecting := True, data_text := []\<rparr>) = (Returned, s3) \<and>
                  data_text s3 = [] \<and>
                  start_collection s =
                    (Returned,
                     s3\<lparr>start_btn := Disabled, stop_btn := Normal,
                        info_label :=
                          (collecting_message (length (get_selected_cities s)) n, ''green'')\<rparr>))"
    using assms by (simp add: start_collection_def spawn_eq Let_def)
qed

theorem start_collection_erases_log_witness:
  "data_text (snd (start_collection \<lparr>collecting = False, threads = [], data_queue = [],
        city_vars = map (\<lambda>c. (c, True)) CITIES,
        start_btn = Normal, stop_btn = Disabled, thread_count = ''3'',
        data_text = ''old line'', data_text_end_seen = False,
        info_label = (''Ready to collect weather data'', ''blue''),
        after_calls = [(100, ProcessQueue)]\<rparr>)) = [] \<and>
   (\<exists>s3. spawn 3 (enumerate 0 CITIES)
            (\<lparr>collecting = False, threads = [], data_queue = [],
        city_vars = map (\<lambda>c. (c, True)) CITIES,
        start_btn = Normal, stop_btn = Disabled, thread_count = ''3'',
        data_text = ''old line'', data_text_end_seen = False,
        info_label = (''Ready to collect weather data'', ''blue''),
        after_calls = [(100, ProcessQueue)]\<rparr>\<lparr>collecting := True, data_text := []\<rparr>)
            = (Returned, s3) \<and>
         data_text s3 = [] \<and>
         start_collection \<lparr>collecting = False, threads = [], data_queue = [],
        city_vars = map (\<lambda>c. (c, True)) CITIES,
        start_btn = Normal, stop_btn = Disabled, thread_count = ''3'',
        data_text = ''old line'', data_text_end_seen = False,
        info_label = (''Ready to collect weather data'', ''blue''),
        after_calls = [(100, ProcessQueue)]\<rparr> =
           (Returned,
            s3\<lparr>start_btn := Disabled, stop_btn := Normal,
               info_label := (collecting_message 10 3, ''green'')\<rparr>))"
proof -
  let ?s = "\<lparr>collecting = False, threads = [], data_queue = [],
        city_vars = map (\<lambda>c. (c, True)) CITIES,
        start_btn = Normal, stop_btn = Disabled, thread_count = ''3'',
        data_text = ''old line'', data_text_end_seen = False,
        info_label = (''Ready to collect weather data'', ''blue''),
        after_calls = [(100, ProcessQueue)]\<rparr>"
  have sel: "get_selected_cities ?s = CITIES"
    by (rule selected_all) simp
  have h: "get_selected_cities ?s \<noteq> []"
    unfolding sel by (rule CITIES_nonempty(1))
  have tc: "py_int (thread_count ?s) = Inr 3 \<and> (0::int) < 3 \<and> (3::int) \<le> 2 ^ 53"
    by (simp add: py_int_3)
  have "data_text (snd (start_collection ?s)) = [] \<and>
        (\<exists>s3. spawn 3 (enumerate 0 (get_selected_cities ?s))
                  (?s\<lparr>collecting := True, data_text := []\<rparr>) = (Returned, s3) \<and>
              data_text s3 = [] \<and>
              start_collection ?s =
                (Returned,
                 s3\<lparr>start_btn := Disabled, stop_btn := Normal,
                    info_label :=
                      (collecting_message (length (get_selected_cities ?s)) 3, ''green'')\<rparr>))"
    using start_collection_erases_log [OF h] tc by blast
  then show ?thesis
    unfolding sel CITIES_nonempty(2) .
qed

section \<open>Stopping\<close>

text \<open>
  Claim C3. Whenever the threads of the list have been started (as they have in
  every reachable state, lemma \<open>reachable_threads\<close>), and whenever each worker
  ends, if ever, \<open>stop_collection\<close> returns without raising, with the running flag
  false and the list of threads empty. It blocks on each thread for at least 0 and
  at most 1 second, so for at most as many seconds as there are threads in all.
\<close>

theorem stop_collection_bounded:
  assumes "\<forall>t \<in> set (threads s). started t"
  shows "\<exists>ws s'. stop_collection ends s = (Returned, ws, s') \<and>
           \<not> collecting s' \<and> threads s' = [] \<and>
           length ws = length (threads s) \<and> (\<forall>w \<in> set ws. 0 \<le> w \<and> w \<le> 1) \<and>
           sum_list ws \<le> of_nat (length (threads s))"
proof -
  obtain ws where ws:
      "stop_collection ends s =
         (Returned, ws,
          s\<lparr>collecting := False, threads := [], start_btn := Normal, stop_btn := Disabled,
            info_label := (''Collection stopped'', ''red'')\<rparr>)"
      "length ws = length (threads s)" "\<forall>w \<in> set ws. 0 \<le> w \<and> w \<le> 1"
    using stop_collection_ok [OF assms, of ends] by blast
  have "sum_list ws \<le> of_nat (length ws)"
    using ws(3) by (intro sum_list_bounded) simp
  then show ?thesis
    using ws by simp
qed

theorem stop_collection_bounded_witness:
  "\<exists>ws s'. stop_collection (\<lambda>i. if i = 0 then Some (1 / 2) else if i = 1 then None else Some 3)
              (snd (start_collection \<lparr>collecting = False, threads = [], data_queue = [],
        city_vars = map (\<lambda>c. (c, True)) CITIES,
        start_btn = Normal, stop_btn = Disabled, thread_count = ''3'',
        data_text = '''', data_text_end_seen = False,
        info_label = (''Ready to collect weather data'', ''blue''),
        after_calls = [(100, ProcessQueue)]\<rparr>)) = (Returned, ws, s') \<and>
     \<not> collecting s' \<and> threads s' = [] \<and> length ws = 10 \<and> sum_list ws \<le> 10"
proof -
  let ?s = "snd (start_collection \<lparr>collecting = False, threads = [], data_queue = [],
        city_vars = map (\<lambda>c. (c, True)) CITIES,
        start_btn = Normal, stop_btn = Disabled, thread_count = ''3'',
        data_text = '''', data_text_end_seen = False,
        info_label = (''Ready to collect weather data'', ''blue''),
        after_calls = [(100, ProcessQueue)]\<rparr>)"
  have h: "\<forall>t \<in> set (threads ?s). started t"
    using workers_for_started [of 3 CITIES] by (simp add: start_from_window)
  have l: "length (threads ?s) = 10"
    by (simp add: start_from_window workers_for_length CITIES_nonempty(2))
  show ?thesis
    using stop_collection_bounded [OF h,
        of "\<lambda>i. if i = 0 then Some (1 / 2) else if i = 1 then None else Some 3"]
    unfolding l by auto
qed

section \<open>Draining the queue\<close>

text \<open>
  Claim C7. \<open>process_queue\<close> on an empty queue leaves the log as it is, so running
  it again changes nothing more. On any queue it returns, having taken exactly the
  items that were in the queue (\<open>get_nowait\<close> answers at once with Empty when
  nothing is left), and it has scheduled its next call 100 ms later.
\<close>

theorem process_queue_empty_idle:
  "(data_queue s = [] \<longrightarrow> data_text (process_queue s) = data_text s) \<and>
   get_nowait (data_queue (process_queue s)) = Inl Empty \<and>
   data_text (process_queue (process_queue s)) = data_text (process_queue s) \<and>
   data_text (process_queue s) = data_text s @ log_lines (data_queue s) \<and>
   after_calls (process_queue s) = after_calls s @ [(100, ProcessQueue)]"
  by (simp add: process_queue_eq get_nowait_def log_lines_def)

theorem process_queue_empty_idle_witness:
  "data_text (process_queue \<lparr>collecting = False, threads = [], data_queue = [],
        city_vars = map (\<lambda>c. (c, True)) CITIES,
        start_btn = Normal, stop_btn = Disabled, thread_count = ''3'',
        data_text = ''kept'', data_text_end_seen = False,
        info_label = (''Ready to collect weather data'', ''blue''),
        after_calls = [(100, ProcessQueue)]\<rparr>) = ''kept'' \<and>
   after_calls (process_queue \<lparr>collecting = False, threads = [], data_queue = [],
        city_vars = map (\<lambda>c. (c, True)) CITIES,
        start_btn = Normal, stop_btn = Disabled, thread_count = ''3'',
        data_text = ''kept'', data_text_end_seen = False,
        info_label = (''Ready to collect weather data'', ''blue''),
        after_calls = [(100, ProcessQueue)]\<rparr>) = [(100, ProcessQueue), (100, ProcessQueue)]"
proof -
  have h: "data_queue \<lparr>collecting = False, threads = [], data_queue = [],
        city_vars = map (\<lambda>c. (c, True)) CITIES,
        start_btn = Normal, stop_btn = Disabled, thread_count = ''3'',
        data_text = ''kept'', data_text_end_seen = False,
        info_label = (''Ready to collect weather data'', ''blue''),
        after_calls = [(100, ProcessQueue)]\<rparr> = []"
    by simp
  show ?thesis
    using process_queue_empty_idle [of "\<lparr>collecting = False, threads = [], data_queue = [],
        city_vars = map (\<lambda>c. (c, True)) CITIES,
        start_btn = Normal, stop_btn = Disabled, thread_count = ''3'',
        data_text = ''kept'', data_text_end_seen = False,
        info_label = (''Ready to collect weather data'', ''blue''),
        after_calls = [(100, ProcessQueue)]\<rparr>"] h
    by simp
qed

text \<open>
  Claim C10. One call of \<open>process_queue\<close> appends the queued texts to the log from
  the front of the queue to its back, each followed by a newline, after what the
  log held before, and leaves the queue empty. The queue holds the rendered
  readings in the order in which the workers' rounds put them: after any rounds
  of any workers, while collecting, the log gains their lines in that order.
\<close>

theorem process_queue_fifo:
  "data_text (process_queue s) =
     data_text s @ concat (map (\<lambda>d. d @ [newline]) (data_queue s)) \<and>
   data_queue (process_queue s) = [] \<and>
   (collecting s \<longrightarrow>
      data_queue (collect_weather_rounds rs s) =
        data_queue s @
        map (\<lambda>(c, e, now).
               to_string (projr (generate_mock_data WeatherDataCollector_init c e now))) rs \<and>
      data_text (process_queue (collect_weather_rounds rs s)) =
        data_text s @
        concat (map (\<lambda>d. d @ [newline])
          (data_queue s @
           map (\<lambda>(c, e, now).
                  to_string (projr (generate_mock_data WeatherDataCollector_init c e now))) rs)))"
  by (simp add: process_queue_eq collect_weather_rounds_eq log_lines_def)

theorem process_queue_fifo_witness:
  "data_text (process_queue (collect_weather_rounds
      [(''Tokyo'', \<lparr>e_temperature = 5, e_humidity = 81, e_condition = 7, e_wind_speed = 51\<rparr>, 45296),
       (''Paris'', \<lparr>e_temperature = 30, e_humidity = 0, e_condition = 0, e_wind_speed = 7\<rparr>, 45297)]
      (snd (start_collection \<lparr>collecting = False, threads = [], data_queue = [],
        city_vars = map (\<lambda>c. (c, True)) CITIES,
        start_btn = Normal, stop_btn = Disabled, thread_count = ''3'',
        data_text = '''', data_text_end_seen = False,
        info_label = (''Ready to collect weather data'', ''blue''),
        after_calls = [(100, ProcessQueue)]\<rparr>)))) =
   ''Tokyo: -5'' @ [CHR 0xB0] @ ''C, Cloudy, Humidity: 20%, Wind: 0 km/h [12:34:56]'' @ [CHR 0x0A] @
   ''Paris: 20'' @ [CHR 0xB0] @ ''C, Sunny, Humidity: 20%, Wind: 7 km/h [12:34:57]'' @ [CHR 0x0A]"
proof -
  let ?s = "snd (start_collection \<lparr>collecting = False, threads = [], data_queue = [],
        city_vars = map (\<lambda>c. (c, True)) CITIES,
        start_btn = Normal, stop_btn = Disabled, thread_count = ''3'',
        data_text = '''', data_text_end_seen = False,
        info_label = (''Ready to collect weather data'', ''blue''),
        after_calls = [(100, ProcessQueue)]\<rparr>)"
  have c: "collecting ?s" and q: "data_queue ?s = []" and t: "data_text ?s = []"
    unfolding start_from_window by simp_all
  have s5: "str_nat 5 = ''5''" and s20: "str_nat 20 = ''20''" and s0: "str_nat 0 = ''0''"
    and s7: "str_nat 7 = ''7''"
    by code_simp+
  have g1: "generate_mock_data WeatherDataCollector_init ''Tokyo''
        \<lparr>e_temperature = 5, e_humidity = 81, e_condition = 7, e_wind_speed = 51\<rparr> 45296 =
      Inr \<lparr>city = ''Tokyo'', temperature = - 5, humidity = 20, condition = ''Cloudy'',
           wind_speed = 0, timestamp = ''12:34:56''\<rparr>"
    by (simp add: generate_mock_data_def randint_def choice_def CONDITIONS_def
        WeatherDataCollector_init_def strftime_HMS_def two_digits_def digit_char_def)
  have g2: "generate_mock_data WeatherDataCollector_init ''Paris''
        \<lparr>e_temperature = 30, e_humidity = 0, e_condition = 0, e_wind_speed = 7\<rparr> 45297 =
      Inr \<lparr>city = ''Paris'', temperature = 20, humidity = 20, condition = ''Sunny'',
           wind_speed = 7, timestamp = ''12:34:57''\<rparr>"
    by (simp add: generate_mock_data_def randint_def choice_def CONDITIONS_def
        WeatherDataCollector_init_def strftime_HMS_def two_digits_def digit_char_def)
  show ?thesis
    using process_queue_fifo [of ?s
      "[(''Tokyo'', \<lparr>e_temperature = 5, e_humidity = 81, e_condition = 7, e_wind_speed = 51\<rparr>, 45296),
        (''Paris'', \<lparr>e_temperature = 30, e_humidity = 0, e_condition = 0, e_wind_speed = 7\<rparr>, 45297)]"]
      c
    by (simp add: q t g1 g2 to_string_def str_int_def s5 s20 s0 s7 degree_sign_def newline_def)
qed

section \<open>The buttons\<close>

text \<open>
  A call of \<open>stop_collection\<close> that returns, and a call of \<open>start_collection\<close> that
  returns with a city selected, leave the buttons mirroring the running flag,
  whatever the state before.
\<close>

lemma stop_collection_returned_buttons:
  "stop_collection ends s = (Returned, ws, s') \<Longrightarrow> buttons_exclusive s'"
  using stop_collection_returned [of ends s ws s'] by (simp add: buttons_exclusive_def)

lemma start_collection_returned_buttons:
  assumes "start_collection s = (Returned, s')" and "get_selected_cities s \<noteq> []"
  shows "buttons_exclusive s'"
  using assms by (cases rule: start_collection_cases) (simp_all add: buttons_exclusive_def)

text \<open>
  A call of \<open>start_collection\<close> that raises (the spin box holds no integer, or 0, or
  an integer that overflows the float) has already set the running flag and has
  not touched the buttons.
\<close>

lemma start_collection_raised:
  assumes "start_collection s = (Raised x, s')"
  shows "collecting s' \<and> start_btn s' = start_btn s \<and> stop_btn s' = stop_btn s"
  using assms by (cases rule: start_collection_cases) simp_all

text \<open>
  Claim C8. The buttons do not always mirror the running flag after a completed
  call. From an idle window whose buttons do mirror it, with all cities checked
  and the spin box holding \<open>abc\<close>, \<open>start_collection\<close> sets the flag and then raises
  ValueError at \<open>int()\<close>; the buttons stay as they were. When the user then
  unchecks every city and presses Start again, \<open>start_collection\<close> returns, and
  after this completed call the running flag is true while Start is enabled and
  Stop is disabled.
\<close>

theorem start_collection_raised_then_completed:
  "(let w = \<lparr>collecting = False, threads = [], data_queue = [],
        city_vars = map (\<lambda>c. (c, True)) CITIES,
        start_btn = Normal, stop_btn = Disabled, thread_count = ''abc'',
        data_text = '''', data_text_end_seen = False,
        info_label = (''Ready to collect weather data'', ''blue''),
        after_calls = [(100, ProcessQueue)]\<rparr>;
        s1 = snd (start_collection w);
        s2 = snd (start_collection (s1\<lparr>city_vars := map (\<lambda>c. (c, False)) CITIES\<rparr>))
    in buttons_exclusive w \<and>
       fst (start_collection w) = Raised ValueError \<and>
       collecting s1 \<and> start_btn s1 = Normal \<and> stop_btn s1 = Disabled \<and>
       fst (start_collection (s1\<lparr>city_vars := map (\<lambda>c. (c, False)) CITIES\<rparr>)) = Returned \<and>
       collecting s2 \<and> start_btn s2 = Normal \<and> stop_btn s2 = Disabled \<and>
       \<not> buttons_exclusive s2)"
proof -
  let ?w = "\<lparr>collecting = False, threads = [], data_queue = [],
        city_vars = map (\<lambda>c. (c, True)) CITIES,
        start_btn = Normal, stop_btn = Disabled, thread_count = ''abc'',
        data_text = '''', data_text_end_seen = False,
        info_label = (''Ready to collect weather data'', ''blue''),
        after_calls = [(100, ProcessQueue)]\<rparr>"
  have "get_selected_cities ?w = CITIES"
    by (rule selected_all) simp
  then have sel: "get_selected_cities ?w \<noteq> []"
    by (simp add: CITIES_nonempty(1))
  have bad: "py_int (thread_count ?w) = Inl ValueError"
    by (simp add: py_int_abc)
  have s1: "start_collection ?w = (Raised ValueError, ?w\<lparr>collecting := True, data_text := []\<rparr>)"
    using start_collection_bad_count [OF sel bad] .
  let ?u = "?w\<lparr>collecting := True, data_text := [],
                city_vars := map (\<lambda>c. (c, False)) CITIES\<rparr>"
  have none: "get_selected_cities ?u = []"
    by (rule selected_none) simp
  have s2: "start_collection ?u =
      (Returned, ?u\<lparr>info_label := (''Please select at least one city!'', ''red'')\<rparr>)"
    using start_collection_empty [OF none] .
  show ?thesis
    unfolding Let_def s1 snd_conv fst_conv
    using s2 by (simp add: buttons_exclusive_def)
qed
end
